theory Spec2Isabelle
  imports Main
begin

section \<open>The debugger's view of the target\<close>

text \<open>
  The script runs inside gdb and sees the target only through gdb's Python interface.
  The part of that interface the script uses is modelled by the record \<open>target\<close>:
  the field names of the type \<open>Thread\<close> (\<open>gdb.lookup_type('Thread').keys()\<close>, if the
  type exists), the address of the symbol \<open>rlist\<close> (\<open>gdb.parse_and_eval('&rlist')\<close>, if
  the symbol exists), the \<open>Thread\<close> structures found in memory, and the raw memory read
  of the selected inferior (\<open>gdb.selected_inferior().read_memory\<close>), which returns the
  bytes or raises \<open>gdb.MemoryError\<close>.

  Pointers and integers read from the target are Python integers (\<open>int\<close>), so that
  pointer comparisons and differences are those of the integers; an address that cannot be
  read gives \<open>gdb.MemoryError\<close>. gdb fetches a value when it is first used; the model
  fetches it at the statement that names it. Both raise before the row of the node
  concerned is printed.
\<close>

type_synonym addr = int

datatype gdb_value =
    VInt int
  | VStr string
  | VStruct addr "(string \<times> gdb_value) list"

datatype exn =
    GdbError string
  | MemoryError
  | Gdb_error string
  | IndexError

record target =
  lookup_type_Thread :: "string list option"
  rlist :: "addr option"
  memory :: "addr \<Rightarrow> (string \<times> gdb_value) list option"
  read_memory :: "addr \<Rightarrow> int \<Rightarrow> string option"

text \<open>Exceptions propagate: the first failing step decides the result.\<close>

definition bind_exn :: "exn + 'a \<Rightarrow> ('a \<Rightarrow> exn + 'b) \<Rightarrow> exn + 'b" where
  "bind_exn m f = (case m of Inl e \<Rightarrow> Inl e | Inr x \<Rightarrow> f x)"

text \<open>\<open>value[name]\<close>: gdb raises when the value has no member of that name.\<close>

definition getitem :: "gdb_value \<Rightarrow> string \<Rightarrow> exn + gdb_value" where
  "getitem v k =
     (case v of
        VStruct a fs \<Rightarrow>
          (case map_of fs k of
             None \<Rightarrow> Inl (Gdb_error (''There is no member named '' @ k @ ''.''))
           | Some x \<Rightarrow> Inr x)
      | _ \<Rightarrow> Inl (Gdb_error ''Attempt to extract a component of a value that is not a structure.''))"

text \<open>\<open>value.type.keys()\<close> and \<open>value.address\<close>.\<close>

definition keys :: "gdb_value \<Rightarrow> string list" where
  "keys v = (case v of VStruct a fs \<Rightarrow> map fst fs | _ \<Rightarrow> [])"

definition gdb_address :: "gdb_value \<Rightarrow> addr" where
  "gdb_address v = (case v of VStruct a fs \<Rightarrow> a | _ \<Rightarrow> 0)"

text \<open>\<open>value.cast(void_p)\<close> and \<open>int(value)\<close> need a scalar, \<open>value.string()\<close> a string.\<close>

definition cast_void_p :: "gdb_value \<Rightarrow> exn + int" where
  "cast_void_p v = (case v of VInt n \<Rightarrow> Inr n | _ \<Rightarrow> Inl (Gdb_error ''Invalid cast.''))"

definition to_int :: "gdb_value \<Rightarrow> exn + int" where
  "to_int v = (case v of VInt n \<Rightarrow> Inr n | _ \<Rightarrow> Inl (Gdb_error ''Cannot convert value to int.''))"

definition string_of :: "gdb_value \<Rightarrow> exn + string" where
  "string_of v = (case v of VStr s \<Rightarrow> Inr s | _ \<Rightarrow> Inl (Gdb_error ''Trying to read string with inappropriate type.''))"

text \<open>\<open>pointer.dereference()\<close> of a \<open>Thread *\<close>.\<close>

definition dereference :: "target \<Rightarrow> addr \<Rightarrow> exn + gdb_value" where
  "dereference tgt p =
     (case memory tgt p of None \<Rightarrow> Inl MemoryError | Some fs \<Rightarrow> Inr (VStruct p fs))"

text \<open>\<open>pointer.dereference()[field]\<close>, read as a pointer.\<close>

definition read_link :: "target \<Rightarrow> addr \<Rightarrow> string \<Rightarrow> exn + addr" where
  "read_link tgt p field =
     bind_exn (dereference tgt p) (\<lambda>v. bind_exn (getitem v field) to_int)"

section \<open>ChibiosThread\<close>

record chibios_thread =
  m_stklimit :: int
  m_r13 :: int
  m_address :: int
  m_stack_size :: int
  m_stack_unused :: int
  m_name :: string
  m_state :: int
  m_flags :: gdb_value
  m_prio :: gdb_value
  m_refs :: gdb_value
  m_time :: gdb_value

definition THREAD_STATE :: "string list" where
  "THREAD_STATE =
     [''READY'', ''CURRENT'', ''SUSPENDED'', ''WTSEM'', ''WTMTX'', ''WTCOND'', ''SLEEPING'',
      ''WTEXIT'', ''WTOREVT'', ''WTANDEVT'', ''SNDMSGQ'', ''SNDMSG'', ''WTMSG'', ''WTQUEUE'',
      ''FINAL'']"

text \<open>
  The loop over \<open>enumerate(stack)\<close>: the index of the first element that is not \<open>'U'\<close>;
  the \<open>else\<close> branch of the \<open>for\<close>, taken when the loop ends without \<open>break\<close>, gives 0.
  The script is Python 2 (\<open>print\<close> statements, \<open>long\<close>): the buffer that
  \<open>read_memory\<close> returns is iterated character by character.
\<close>

fun first_non_fill :: "int \<Rightarrow> string \<Rightarrow> int" where
  "first_non_fill i [] = 0"
| "first_non_fill i (each # stack) =
     (if each \<noteq> CHR ''U'' then i else first_non_fill (i + 1) stack)"

text \<open>
  The constructor. The first component of the result lists the calls of
  \<open>inf.read_memory\<close> it made, as (address, length); the second is the exception raised
  or the object built.
\<close>

definition ChibiosThread :: "target \<Rightarrow> gdb_value \<Rightarrow> (addr \<times> int) list \<times> (exn + chibios_thread)" where
  "ChibiosThread tgt thread =
     (case bind_exn (bind_exn (getitem thread ''p_ctx'') (\<lambda>ctx. getitem ctx ''r13'')) cast_void_p of
        Inl e \<Rightarrow> ([], Inl e)
      | Inr r13 \<Rightarrow>
     (case (if ''p_stklimit'' \<in> set (keys thread)
            then bind_exn (getitem thread ''p_stklimit'') cast_void_p
            else Inr 0) of
        Inl e \<Rightarrow> ([], Inl e)
      | Inr stklimit \<Rightarrow>
          let (reads, stack_size, stack_unused) =
            (if stklimit > 0 then
               let stack_size = r13 - stklimit
               in ([(stklimit, stack_size)], stack_size,
                   (case read_memory tgt stklimit stack_size of
                      Some stack \<Rightarrow> first_non_fill 0 stack
                    | None \<Rightarrow> 0))
             else ([], 0, 0))
          in (reads,
              bind_exn (bind_exn (getitem thread ''p_name'') string_of) (\<lambda>s.
              let name = (if length s > 0 then s else ''<no name>'') in
              bind_exn (bind_exn (getitem thread ''p_state'') to_int) (\<lambda>state.
              bind_exn (getitem thread ''p_flags'') (\<lambda>flags.
              bind_exn (getitem thread ''p_prio'') (\<lambda>prio.
              bind_exn (getitem thread ''p_refs'') (\<lambda>refs.
              bind_exn (if ''p_time'' \<in> set (keys thread)
                        then getitem thread ''p_time'' else Inr (VInt 0)) (\<lambda>time.
              Inr \<lparr>m_stklimit = stklimit, m_r13 = r13, m_address = gdb_address thread,
                   m_stack_size = stack_size, m_stack_unused = stack_unused,
                   m_name = name, m_state = state, m_flags = flags, m_prio = prio,
                   m_refs = refs, m_time = time\<rparr>)))))))))"

text \<open>The properties of the class that the report reads.\<close>

definition name :: "chibios_thread \<Rightarrow> string" where
  "name t = m_name t"

definition stack_size :: "chibios_thread \<Rightarrow> int" where
  "stack_size t = m_stack_size t"

definition stack_limit :: "chibios_thread \<Rightarrow> int" where
  "stack_limit t = m_stklimit t"

definition stack_start :: "chibios_thread \<Rightarrow> int" where
  "stack_start t = m_r13 t"

definition stack_unused :: "chibios_thread \<Rightarrow> int" where
  "stack_unused t = m_stack_unused t"

definition address :: "chibios_thread \<Rightarrow> int" where
  "address t = m_address t"

definition state :: "chibios_thread \<Rightarrow> int" where
  "state t = m_state t"

text \<open>
  Indexing a Python list: an index from \<open>-len\<close> to \<open>-1\<close> counts from the end, anything
  outside \<open>-len .. len - 1\<close> raises IndexError.
\<close>

definition list_getitem :: "'a list \<Rightarrow> int \<Rightarrow> exn + 'a" where
  "list_getitem xs i =
     (if 0 \<le> i \<and> i < int (length xs) then Inr (xs ! nat i)
      else if - int (length xs) \<le> i \<and> i < 0 then Inr (xs ! nat (int (length xs) + i))
      else Inl IndexError)"

definition state_str :: "chibios_thread \<Rightarrow> exn + string" where
  "state_str t = list_getitem THREAD_STATE (state t)"

text \<open>
  \<open>sanity_check\<close>: what it prints, and the exception it raises if any.
\<close>

datatype line =
    Text string
  | Header "string list"
  | Row int int int int int string string

definition sanity_check :: "target \<Rightarrow> line list \<times> exn option" where
  "sanity_check tgt =
     (case lookup_type_Thread tgt of
        None \<Rightarrow> ([], Some (Gdb_error ''No type named Thread.''))
      | Some thread_type_keys \<Rightarrow>
          if ''p_newer'' \<notin> set thread_type_keys \<or> ''p_older'' \<notin> set thread_type_keys
          then ([], Some (GdbError ''ChibiOS/RT thread registry not enabled, cannot access thread information!''))
          else
            ((if ''p_stklimit'' \<notin> set thread_type_keys
              then [Text ''No p_stklimit in Thread struct; enable CH_DBG_ENABLE_STACK_CHECK'']
              else []) @
             (if ''p_time'' \<notin> set thread_type_keys
              then [Text ''No p_time in Thread struct; enable CH_DBG_THREADS_PROFILING'']
              else []),
             None))"

section \<open>The command \<open>chibios threads\<close>\<close>

text \<open>
  The report is a list of lines. The header line carries the column titles and a row the
  seven values that \<open>THREAD_INFO_FORMAT\<close> reads from the thread, in its order; the widths
  and the hexadecimal layout of the columns are left out.
\<close>

definition THREAD_INFO_HEADER_DATA :: "string list" where
  "THREAD_INFO_HEADER_DATA =
     [''Address'', ''StkLimit'', ''Stack'', ''Free'', ''Total'', ''Name'', ''State'']"

definition THREAD_INFO_FORMAT :: "chibios_thread \<Rightarrow> exn + line" where
  "THREAD_INFO_FORMAT thread =
     bind_exn (state_str thread) (\<lambda>s.
       Inr (Row (address thread) (stack_limit thread) (stack_start thread)
                (stack_unused thread) (stack_size thread) (name thread) s))"

text \<open>
  One turn of the \<open>while\<close> loop at the cursor \<open>newer\<close>: the lines it prints, and the
  exception it raises or the next cursor.
\<close>

definition loop_body :: "target \<Rightarrow> addr \<Rightarrow> line list \<times> (exn + addr)" where
  "loop_body tgt newer =
     (case bind_exn (bind_exn (dereference tgt newer) (\<lambda>th. snd (ChibiosThread tgt th)))
             THREAD_INFO_FORMAT of
        Inl e \<Rightarrow> ([], Inl e)
      | Inr row \<Rightarrow>
          ([row],
           let current = newer in
           bind_exn (read_link tgt newer ''p_newer'') (\<lambda>newer'.
           bind_exn (read_link tgt newer' ''p_older'') (\<lambda>older.
             if older \<noteq> current
             then Inl (GdbError ''Rlist pointer invalid--corrupt list?'')
             else Inr newer'))))"

text \<open>
  The loop. Nothing bounds the number of turns, so the result is optional: \<open>None\<close> is a
  loop that never ends. A result is the output printed and the exception raised, if any.
\<close>

partial_function (option) walk ::
  "target \<Rightarrow> addr \<Rightarrow> addr \<Rightarrow> line list \<Rightarrow> (line list \<times> exn option) option" where
  "walk tgt rlist_as_thread newer out =
     (if newer \<noteq> rlist_as_thread then
        (case loop_body tgt newer of
           (printed, Inl e) \<Rightarrow> Some (out @ printed, Some e)
         | (printed, Inr newer') \<Rightarrow> walk tgt rlist_as_thread newer' (out @ printed))
      else Some (out, None))"

declare walk.simps [code]

definition invoke :: "target \<Rightarrow> (line list \<times> exn option) option" where
  "invoke tgt =
     (case sanity_check tgt of
        (out, Some e) \<Rightarrow> Some (out, Some e)
      | (out, None) \<Rightarrow>
     (case rlist tgt of
        None \<Rightarrow> Some (out, Some (Gdb_error ''No symbol rlist in current context.''))
      | Some rlist_p \<Rightarrow>
     (case lookup_type_Thread tgt of
        None \<Rightarrow> Some (out, Some (Gdb_error ''No type named Thread.''))
      | Some thread_type_keys \<Rightarrow>
     (case read_link tgt rlist_p ''p_newer'' of
        Inl e \<Rightarrow> Some (out, Some e)
      | Inr newer \<Rightarrow>
     (case read_link tgt rlist_p ''p_older'' of
        Inl e \<Rightarrow> Some (out, Some e)
      | Inr older \<Rightarrow>
          walk tgt rlist_p newer (out @ [Header THREAD_INFO_HEADER_DATA]))))))"

section \<open>Registries\<close>

text \<open>
  The row that one turn of the loop prints for the node at \<open>n\<close>, or the exception
  that building it raises: the node is dereferenced, a \<open>ChibiosThread\<close> is constructed
  from it and formatted.
\<close>

definition row_of :: "target \<Rightarrow> addr \<Rightarrow> exn + line" where
  "row_of tgt n =
     bind_exn (bind_exn (dereference tgt n) (\<lambda>th. snd (ChibiosThread tgt th))) THREAD_INFO_FORMAT"

text \<open>
  The older/newer consistency of a sequence of nodes: the \<open>p_newer\<close> pointer of each
  node is the next node of the sequence, whose \<open>p_older\<close> pointer is the node itself.
\<close>

fun linked :: "target \<Rightarrow> addr list \<Rightarrow> bool" where
  "linked tgt [] = True"
| "linked tgt [n] = True"
| "linked tgt (n # m # ns) =
     (read_link tgt n ''p_newer'' = Inr m \<and> read_link tgt m ''p_older'' = Inr n \<and>
      linked tgt (m # ns))"

text \<open>
  A circular registry anchored at \<open>rl\<close> whose non-anchor nodes are \<open>ns\<close>, in the
  order of the \<open>p_newer\<close> pointers: the circuit from the anchor through \<open>ns\<close> and back
  to the anchor is consistent, and the anchor is not one of the nodes.
\<close>

definition registry :: "target \<Rightarrow> addr \<Rightarrow> addr list \<Rightarrow> bool" where
  "registry tgt rl ns = (linked tgt (rl # ns @ [rl]) \<and> rl \<notin> set ns)"


section \<open>Thread structures\<close>

text \<open>
  A \<open>Thread\<close> structure with the members that the constructor reads without testing
  for them: the saved stack pointer \<open>sp\<close> in \<open>p_ctx.r13\<close>, the name, the state ordinal,
  the flags, the priority and the reference count.
\<close>

definition mandatory_fields ::
  "(string \<times> gdb_value) list \<Rightarrow> int \<Rightarrow> string \<Rightarrow> int \<Rightarrow> gdb_value \<Rightarrow> gdb_value \<Rightarrow> gdb_value \<Rightarrow> bool" where
  "mandatory_fields fs sp nm st fl pr rf =
     ((case map_of fs ''p_ctx'' of
         Some (VStruct c cfs) \<Rightarrow> map_of cfs ''r13'' = Some (VInt sp)
       | _ \<Rightarrow> False) \<and>
      map_of fs ''p_name'' = Some (VStr nm) \<and>
      map_of fs ''p_state'' = Some (VInt st) \<and>
      map_of fs ''p_flags'' = Some fl \<and>
      map_of fs ''p_prio'' = Some pr \<and>
      map_of fs ''p_refs'' = Some rf)"

text \<open>
  The optional member \<open>p_stklimit\<close>: absent, and then the constructor keeps 0, or a
  pointer \<open>lim\<close>.
\<close>

definition stklimit_field :: "(string \<times> gdb_value) list \<Rightarrow> int \<Rightarrow> bool" where
  "stklimit_field fs lim =
     (case map_of fs ''p_stklimit'' of
        None \<Rightarrow> lim = 0
      | Some (VInt l) \<Rightarrow> lim = l
      | Some _ \<Rightarrow> False)"

text \<open>The optional member \<open>p_time\<close>: absent, and then the constructor keeps 0.\<close>

definition time_field :: "(string \<times> gdb_value) list \<Rightarrow> gdb_value" where
  "time_field fs = (case map_of fs ''p_time'' of None \<Rightarrow> VInt 0 | Some t \<Rightarrow> t)"

section \<open>Sample targets\<close>

text \<open>
  A \<open>Thread\<close> structure of a kernel built without \<open>p_stklimit\<close> and \<open>p_time\<close>; a
  kernel built with them has these members in front.
\<close>

definition thread_struct ::
  "addr \<Rightarrow> addr \<Rightarrow> int \<Rightarrow> string \<Rightarrow> int \<Rightarrow> (string \<times> gdb_value) list" where
  "thread_struct nw od sp nm st =
     [(''p_newer'', VInt nw), (''p_older'', VInt od),
      (''p_ctx'', VStruct 0 [(''r13'', VInt sp)]),
      (''p_name'', VStr nm), (''p_state'', VInt st),
      (''p_flags'', VInt 0), (''p_prio'', VInt 64), (''p_refs'', VInt 1)]"

text \<open>A target in which nothing resolves, and one whose raw memory read always gives \<open>stack\<close>.\<close>

definition no_memory :: target where
  "no_memory = \<lparr>lookup_type_Thread = None, rlist = None, memory = (\<lambda>a. None),
                 read_memory = (\<lambda>a n. None)\<rparr>"

definition scan_target :: "string option \<Rightarrow> target" where
  "scan_target stack = no_memory\<lparr>read_memory := (\<lambda>a n. stack)\<rparr>"

text \<open>
  A target with a registry anchored at 100 and two threads, at 200 and 300. The
  \<open>p_older\<close> pointers of the two threads and of the anchor and the state ordinal of the
  second thread are parameters; the registry is consistent when the three pointers are
  100, 200 and 300. Only the stack of the first thread can be read.
\<close>

definition sample_target :: "addr \<Rightarrow> addr \<Rightarrow> addr \<Rightarrow> int \<Rightarrow> target" where
  "sample_target older1 older2 older_anchor state2 =
     \<lparr>lookup_type_Thread =
        Some [''p_newer'', ''p_older'', ''p_ctx'', ''p_stklimit'', ''p_name'', ''p_state'',
              ''p_flags'', ''p_prio'', ''p_refs''],
      rlist = Some 100,
      memory = map_of
        [(100, [(''p_newer'', VInt 200), (''p_older'', VInt older_anchor)]),
         (200, (''p_stklimit'', VInt 512) # thread_struct 300 older1 520 ''main'' 1),
         (300, (''p_stklimit'', VInt 1024) # thread_struct 100 older2 1040 [] state2)],
      read_memory = (\<lambda>a n. if a = 512 \<and> n = 8 then Some ''UUUUUUUx'' else None)\<rparr>"

section \<open>Basic facts\<close>

lemma bind_exn_Inl: "bind_exn (Inl e) f = Inl e"
  by (simp add: bind_exn_def)

lemma bind_exn_Inr: "bind_exn (Inr x) f = f x"
  by (simp add: bind_exn_def)

lemma getitem_member: "map_of fs k = Some x \<Longrightarrow> getitem (VStruct a fs) k = Inr x"
  by (simp add: getitem_def)

lemma keys_member: "(k \<in> set (keys (VStruct a fs))) = (map_of fs k \<noteq> None)"
  by (simp add: keys_def map_of_eq_None_iff)

subsection \<open>One turn of the loop\<close>

lemma loop_body_next:
  assumes "row_of tgt n = Inr row" "read_link tgt n ''p_newer'' = Inr m"
    "read_link tgt m ''p_older'' = Inr n"
  shows "loop_body tgt n = ([row], Inr m)"
  using assms by (simp add: loop_body_def row_of_def bind_exn_Inr)

lemma loop_body_corrupt:
  assumes "row_of tgt n = Inr row" "read_link tgt n ''p_newer'' = Inr m"
    "read_link tgt m ''p_older'' = Inr older" "older \<noteq> n"
  shows "loop_body tgt n = ([row], Inl (GdbError ''Rlist pointer invalid--corrupt list?''))"
  using assms by (simp add: loop_body_def row_of_def bind_exn_Inr)



lemma walk_step:
  assumes "n \<noteq> rl" "loop_body tgt n = (printed, Inr m)"
  shows "walk tgt rl n out = walk tgt rl m (out @ printed)"
  using assms by (subst walk.simps) simp

lemma walk_stop:
  assumes "n \<noteq> rl" "loop_body tgt n = (printed, Inl e)"
  shows "walk tgt rl n out = Some (out @ printed, Some e)"
  using assms by (subst walk.simps) simp

lemma walk_done: "walk tgt rl rl out = Some (out, None)"
  by (subst walk.simps) simp

subsection \<open>The loop along a consistent sequence of nodes\<close>

lemma linked_hd:
  "linked tgt (n # ns @ [c]) \<Longrightarrow>
     read_link tgt n ''p_newer'' = Inr (hd (ns @ [c])) \<and>
     read_link tgt (hd (ns @ [c])) ''p_older'' = Inr n \<and> linked tgt (ns @ [c])"
  by (cases ns) simp_all

lemma walk_linked:
  "linked tgt (ns @ [c]) \<Longrightarrow> rl \<notin> set ns \<Longrightarrow> map (row_of tgt) ns = map Inr rows \<Longrightarrow>
     walk tgt rl (hd (ns @ [c])) out = walk tgt rl c (out @ rows)"
proof (induction ns arbitrary: rows out)
  case Nil
  then show ?case by simp
next
  case (Cons n ns)
  from Cons.prems(3) obtain row rows' where rows: "rows = row # rows'"
    and row: "row_of tgt n = Inr row" and rest: "map (row_of tgt) ns = map Inr rows'"
    by (cases rows) auto
  from Cons.prems(1) have lk: "read_link tgt n ''p_newer'' = Inr (hd (ns @ [c]))"
    "read_link tgt (hd (ns @ [c])) ''p_older'' = Inr n" "linked tgt (ns @ [c])"
    using linked_hd [of tgt n ns c] by simp_all
  from Cons.prems(2) have ne: "n \<noteq> rl" "rl \<notin> set ns" by auto
  have "walk tgt rl n out = walk tgt rl (hd (ns @ [c])) (out @ [row])"
    by (rule walk_step [OF ne(1) loop_body_next [OF row lk(1) lk(2)]])
  also have "\<dots> = walk tgt rl c ((out @ [row]) @ rows')"
    by (rule Cons.IH [OF lk(3) ne(2) rest])
  finally show ?case by (simp add: rows)
qed




subsection \<open>The constructor\<close>

lemma read_r13:
  "mandatory_fields fs sp nm st fl pr rf \<Longrightarrow>
     bind_exn (bind_exn (getitem (VStruct a fs) ''p_ctx'') (\<lambda>ctx. getitem ctx ''r13'')) cast_void_p = Inr sp"
  by (auto simp: mandatory_fields_def getitem_def bind_exn_def cast_void_p_def
           split: option.splits gdb_value.splits)

lemma read_stklimit:
  "stklimit_field fs lim \<Longrightarrow>
     (if ''p_stklimit'' \<in> set (keys (VStruct a fs))
      then bind_exn (getitem (VStruct a fs) ''p_stklimit'') cast_void_p
      else Inr 0) = Inr lim"
  by (auto simp: stklimit_field_def keys_member getitem_def bind_exn_def cast_void_p_def
           split: option.splits gdb_value.splits)

lemma read_time:
  "(if ''p_time'' \<in> set (keys (VStruct a fs)) then getitem (VStruct a fs) ''p_time'' else Inr (VInt 0))
     = Inr (time_field fs)"
  by (auto simp: time_field_def keys_member getitem_def split: option.splits)

lemma ChibiosThread_built:
  assumes "mandatory_fields fs sp nm st fl pr rf" "stklimit_field fs lim"
  shows "ChibiosThread tgt (VStruct a fs) =
     (if 0 < lim then [(lim, sp - lim)] else [],
      Inr \<lparr>m_stklimit = lim, m_r13 = sp, m_address = a,
           m_stack_size = (if 0 < lim then sp - lim else 0),
           m_stack_unused =
             (if 0 < lim
              then (case read_memory tgt lim (sp - lim) of
                      Some stack \<Rightarrow> first_non_fill 0 stack | None \<Rightarrow> 0)
              else 0),
           m_name = (if nm = [] then ''<no name>'' else nm), m_state = st,
           m_flags = fl, m_prio = pr, m_refs = rf, m_time = time_field fs\<rparr>)"
proof -
  from assms(1) have f: "getitem (VStruct a fs) ''p_name'' = Inr (VStr nm)"
    "getitem (VStruct a fs) ''p_state'' = Inr (VInt st)"
    "getitem (VStruct a fs) ''p_flags'' = Inr fl"
    "getitem (VStruct a fs) ''p_prio'' = Inr pr"
    "getitem (VStruct a fs) ''p_refs'' = Inr rf"
    by (simp_all add: mandatory_fields_def getitem_member)
  show ?thesis
    unfolding ChibiosThread_def read_r13 [OF assms(1)] read_stklimit [OF assms(2)] read_time f
    by (simp add: bind_exn_Inr string_of_def to_int_def gdb_address_def Let_def)
qed



lemma first_non_fill_index:
  "i < length stack \<Longrightarrow> stack ! i \<noteq> CHR ''U'' \<Longrightarrow> \<forall>j<i. stack ! j = CHR ''U'' \<Longrightarrow>
     first_non_fill k stack = k + int i"
proof (induction stack arbitrary: i k)
  case Nil
  then show ?case by simp
next
  case (Cons b stack)
  show ?case
  proof (cases i)
    case 0
    with Cons.prems show ?thesis by simp
  next
    case (Suc i')
    with Cons.prems have "b = CHR ''U''" by auto
    moreover from Suc Cons.prems have "first_non_fill (k + 1) stack = (k + 1) + int i'"
      by (intro Cons.IH) auto
    ultimately show ?thesis using Suc by simp
  qed
qed

lemma first_non_fill_all: "\<forall>b\<in>set stack. b = CHR ''U'' \<Longrightarrow> first_non_fill k stack = 0"
  by (induction stack arbitrary: k) auto

subsection \<open>The state table\<close>

lemma length_THREAD_STATE: "length THREAD_STATE = 15"
  by (simp add: THREAD_STATE_def)

lemma state_str_range:
  "0 \<le> m_state ch \<Longrightarrow> m_state ch < 15 \<Longrightarrow> state_str ch = Inr (THREAD_STATE ! nat (m_state ch))"
  by (simp add: state_str_def state_def list_getitem_def length_THREAD_STATE)

lemma state_str_negative:
  "- 15 \<le> m_state ch \<Longrightarrow> m_state ch < 0 \<Longrightarrow>
     state_str ch = Inr (THREAD_STATE ! nat (15 + m_state ch))"
  by (simp add: state_str_def state_def list_getitem_def length_THREAD_STATE)

lemma state_str_IndexError:
  "(state_str ch = Inl IndexError) = (15 \<le> m_state ch \<or> m_state ch < - 15)"
  by (auto simp: state_str_def state_def list_getitem_def length_THREAD_STATE)

lemma state_str_in_table: "state_str ch = Inr s \<Longrightarrow> s \<in> set THREAD_STATE"
  by (auto simp: state_str_def state_def list_getitem_def length_THREAD_STATE split: if_splits)

subsection \<open>The command\<close>

lemma sanity_check_type:
  "sanity_check tgt = (warnings, None) \<Longrightarrow> \<exists>ks. lookup_type_Thread tgt = Some ks"
  by (cases "lookup_type_Thread tgt") (simp_all add: sanity_check_def)

lemma invoke_walk:
  assumes "sanity_check tgt = (warnings, None)" "rlist tgt = Some rl"
    "read_link tgt rl ''p_newer'' = Inr n" "read_link tgt rl ''p_older'' = Inr oa"
  shows "invoke tgt = walk tgt rl n (warnings @ [Header THREAD_INFO_HEADER_DATA])"
proof -
  from sanity_check_type [OF assms(1)] obtain ks where "lookup_type_Thread tgt = Some ks" ..
  with assms show ?thesis
    by (simp add: invoke_def)
qed



lemma rows_snoc:
  "map (row_of tgt) (pre @ [l]) = map Inr rows \<Longrightarrow>
     \<exists>rows' row. rows = rows' @ [row] \<and> map (row_of tgt) pre = map Inr rows' \<and>
                 row_of tgt l = Inr row"
proof -
  assume a: "map (row_of tgt) (pre @ [l]) = map Inr rows"
  then have "length rows = length pre + 1"
    using map_eq_imp_length_eq [OF a] by simp
  then have "rows \<noteq> []" by auto
  then have r: "rows = butlast rows @ [last rows]" by simp
  with a have "map (row_of tgt) pre @ [row_of tgt l] = map Inr (butlast rows) @ [Inr (last rows)]"
    by (metis list.simps(8) list.simps(9) map_append)
  then have "map (row_of tgt) pre = map Inr (butlast rows)" "row_of tgt l = Inr (last rows)"
    by simp_all
  with r show ?thesis by blast
qed

subsection \<open>The sample targets\<close>

lemmas run_defs =
  invoke_def sanity_check_def read_link_def dereference_def bind_exn_def getitem_def to_int_def
  loop_body_def ChibiosThread_def keys_def cast_void_p_def string_of_def gdb_address_def
  THREAD_INFO_FORMAT_def THREAD_INFO_HEADER_DATA_def state_str_def list_getitem_def
  THREAD_STATE_def state_def address_def stack_limit_def stack_size_def stack_start_def
  stack_unused_def name_def sample_target_def thread_struct_def row_of_def

lemma sample_sanity:
  "sanity_check (sample_target o1 o2 oa st) =
     ([Text ''No p_time in Thread struct; enable CH_DBG_THREADS_PROFILING''], None)"
  by (simp add: sanity_check_def sample_target_def)

lemma sample_links:
  "read_link (sample_target o1 o2 oa st) 100 ''p_newer'' = Inr 200"
  "read_link (sample_target o1 o2 oa st) 100 ''p_older'' = Inr oa"
  "read_link (sample_target o1 o2 oa st) 200 ''p_newer'' = Inr 300"
  "read_link (sample_target o1 o2 oa st) 200 ''p_older'' = Inr o1"
  "read_link (sample_target o1 o2 oa st) 300 ''p_newer'' = Inr 100"
  "read_link (sample_target o1 o2 oa st) 300 ''p_older'' = Inr o2"
  by (simp_all add: read_link_def dereference_def sample_target_def thread_struct_def
        bind_exn_def getitem_def to_int_def)

lemma sample_row_200:
  "row_of (sample_target o1 o2 oa st) 200 = Inr (Row 200 512 520 7 8 ''main'' ''CURRENT'')"
  by (simp add: run_defs)

lemma sample_row_300:
  "row_of (sample_target o1 o2 oa 14) 300 = Inr (Row 300 1024 1040 0 16 ''<no name>'' ''FINAL'')"
  "row_of (sample_target o1 o2 oa 15) 300 = Inl IndexError"
  by (simp_all add: run_defs)

section \<open>The registry walk\<close>



text \<open>
  The walk checks a back-link only after it has advanced: the \<open>p_older\<close> pointer of
  the first node is never compared with the anchor, and the exception raised on a mismatch
  is the same whichever node is concerned. In the sample registry, a first node whose
  \<open>p_older\<close> is 999 gives the complete report; a mismatch at the second node and a
  mismatch at the anchor give the same exception.
\<close>

theorem corruption_unnamed_counterexample:
  "read_link (sample_target 999 200 300 14) 100 ''p_newer'' = Inr 200 \<and>
   read_link (sample_target 999 200 300 14) 200 ''p_older'' = Inr 999 \<and>
   invoke (sample_target 999 200 300 14) =
     Some ([Text ''No p_time in Thread struct; enable CH_DBG_THREADS_PROFILING'',
            Header THREAD_INFO_HEADER_DATA,
            Row 200 512 520 7 8 ''main'' ''CURRENT'',
            Row 300 1024 1040 0 16 ''<no name>'' ''FINAL''], None) \<and>
   read_link (sample_target 100 999 300 14) 300 ''p_older'' = Inr 999 \<and>
   invoke (sample_target 100 999 300 14) =
     Some ([Text ''No p_time in Thread struct; enable CH_DBG_THREADS_PROFILING'',
            Header THREAD_INFO_HEADER_DATA,
            Row 200 512 520 7 8 ''main'' ''CURRENT''],
           Some (GdbError ''Rlist pointer invalid--corrupt list?'')) \<and>
   read_link (sample_target 100 200 999 14) 100 ''p_older'' = Inr 999 \<and>
   invoke (sample_target 100 200 999 14) =
     Some ([Text ''No p_time in Thread struct; enable CH_DBG_THREADS_PROFILING'',
            Header THREAD_INFO_HEADER_DATA,
            Row 200 512 520 7 8 ''main'' ''CURRENT'',
            Row 300 1024 1040 0 16 ''<no name>'' ''FINAL''],
           Some (GdbError ''Rlist pointer invalid--corrupt list?''))"
proof -
  have run: "invoke (sample_target o1 o2 oa st) =
      walk (sample_target o1 o2 oa st) 100 200
        ([Text ''No p_time in Thread struct; enable CH_DBG_THREADS_PROFILING''] @
         [Header THREAD_INFO_HEADER_DATA])" for o1 o2 oa st
    by (rule invoke_walk [OF sample_sanity _ sample_links(1) sample_links(2)])
      (simp add: sample_target_def)
  have first: "loop_body (sample_target o1 200 oa st) 200 =
      ([Row 200 512 520 7 8 ''main'' ''CURRENT''], Inr 300)" for o1 oa st
    by (rule loop_body_next [OF sample_row_200 sample_links(3) sample_links(6)])
  have first_bad: "loop_body (sample_target 100 999 300 14) 200 =
      ([Row 200 512 520 7 8 ''main'' ''CURRENT''],
       Inl (GdbError ''Rlist pointer invalid--corrupt list?''))"
    by (rule loop_body_corrupt [OF sample_row_200 sample_links(3) sample_links(6)]) simp
  have second: "loop_body (sample_target o1 o2 300 14) 300 =
      ([Row 300 1024 1040 0 16 ''<no name>'' ''FINAL''], Inr 100)" for o1 o2
    by (rule loop_body_next [OF sample_row_300(1) sample_links(5) sample_links(2)])
  have second_bad: "loop_body (sample_target 100 200 999 14) 300 =
      ([Row 300 1024 1040 0 16 ''<no name>'' ''FINAL''],
       Inl (GdbError ''Rlist pointer invalid--corrupt list?''))"
    by (rule loop_body_corrupt [OF sample_row_300(1) sample_links(5) sample_links(2)]) simp
  have a: "invoke (sample_target 999 200 300 14) =
     Some ([Text ''No p_time in Thread struct; enable CH_DBG_THREADS_PROFILING'',
            Header THREAD_INFO_HEADER_DATA,
            Row 200 512 520 7 8 ''main'' ''CURRENT'',
            Row 300 1024 1040 0 16 ''<no name>'' ''FINAL''], None)"
    by (simp add: run walk_step [OF _ first] walk_step [OF _ second] walk_done)
  have b: "invoke (sample_target 100 999 300 14) =
     Some ([Text ''No p_time in Thread struct; enable CH_DBG_THREADS_PROFILING'',
            Header THREAD_INFO_HEADER_DATA,
            Row 200 512 520 7 8 ''main'' ''CURRENT''],
           Some (GdbError ''Rlist pointer invalid--corrupt list?''))"
    by (simp add: run walk_stop [OF _ first_bad])
  have c: "invoke (sample_target 100 200 999 14) =
     Some ([Text ''No p_time in Thread struct; enable CH_DBG_THREADS_PROFILING'',
            Header THREAD_INFO_HEADER_DATA,
            Row 200 512 520 7 8 ''main'' ''CURRENT'',
            Row 300 1024 1040 0 16 ''<no name>'' ''FINAL''],
           Some (GdbError ''Rlist pointer invalid--corrupt list?''))"
    by (simp add: run walk_step [OF _ first] walk_stop [OF _ second_bad])
  from a b c show ?thesis
    by (simp add: sample_links)
qed

text \<open>
  C2, amended. When the walk has visited the nodes \<open>pre @ [l]\<close> (so \<open>k - 1\<close>
  nodes, \<open>k \<ge> 2\<close>), consistent among themselves, and the \<open>p_older\<close> pointer of the
  \<open>k\<close>-th node \<open>c\<close> reached from \<open>l\<close> is not \<open>l\<close>, the command stops with
  \<open>gdb.GdbError\<close> and the fixed message \<open>Rlist pointer invalid--corrupt list?\<close>,
  after the header and exactly \<open>k - 1\<close> rows; no further node is visited.
\<close>

theorem corruption_aborts_walk:
  assumes "sanity_check tgt = (warnings, None)" and "rlist tgt = Some rl"
    and "read_link tgt rl ''p_newer'' = Inr (hd (pre @ [l]))"
    and "read_link tgt rl ''p_older'' = Inr oa"
    and "linked tgt (pre @ [l])" and "rl \<notin> set (pre @ [l])"
    and "map (row_of tgt) (pre @ [l]) = map Inr rows"
    and "read_link tgt l ''p_newer'' = Inr c" and "read_link tgt c ''p_older'' = Inr older"
    and "older \<noteq> l"
  shows "invoke tgt =
           Some (warnings @ Header THREAD_INFO_HEADER_DATA # rows,
                 Some (GdbError ''Rlist pointer invalid--corrupt list?'')) \<and>
         length rows = length pre + 1"
proof -
  from rows_snoc [OF assms(7)] obtain rows' row where rows: "rows = rows' @ [row]"
    and pre: "map (row_of tgt) pre = map Inr rows'" and row: "row_of tgt l = Inr row"
    by blast
  from assms(6) have nrl: "rl \<notin> set pre" and lrl: "l \<noteq> rl"
    by auto
  let ?out = "warnings @ [Header THREAD_INFO_HEADER_DATA]"
  have "invoke tgt = walk tgt rl (hd (pre @ [l])) ?out"
    by (rule invoke_walk [OF assms(1) assms(2) assms(3) assms(4)])
  also have "\<dots> = walk tgt rl l (?out @ rows')"
    by (rule walk_linked [OF assms(5) nrl pre])
  also have "\<dots> = Some ((?out @ rows') @ [row],
      Some (GdbError ''Rlist pointer invalid--corrupt list?''))"
    by (rule walk_stop [OF lrl loop_body_corrupt [OF row assms(8) assms(9) assms(10)]])
  finally have "invoke tgt =
      Some (warnings @ Header THREAD_INFO_HEADER_DATA # rows,
            Some (GdbError ''Rlist pointer invalid--corrupt list?''))"
    by (simp add: rows)
  moreover from pre have "length rows' = length pre"
    by (rule map_eq_imp_length_eq [symmetric])
  ultimately show ?thesis
    by (simp add: rows)
qed

text \<open>
  The sample registry with the back-link of the anchor broken.
\<close>

theorem corruption_aborts_walk_witness:
  "sanity_check (sample_target 100 200 999 14) =
     ([Text ''No p_time in Thread struct; enable CH_DBG_THREADS_PROFILING''], None) \<and>
   rlist (sample_target 100 200 999 14) = Some 100 \<and>
   read_link (sample_target 100 200 999 14) 100 ''p_newer'' = Inr (hd ([200] @ [300])) \<and>
   read_link (sample_target 100 200 999 14) 100 ''p_older'' = Inr 999 \<and>
   linked (sample_target 100 200 999 14) ([200] @ [300]) \<and>
   100 \<notin> set ([200] @ [300 :: int]) \<and>
   map (row_of (sample_target 100 200 999 14)) ([200] @ [300]) =
     map Inr [Row 200 512 520 7 8 ''main'' ''CURRENT'',
              Row 300 1024 1040 0 16 ''<no name>'' ''FINAL''] \<and>
   read_link (sample_target 100 200 999 14) 300 ''p_newer'' = Inr 100 \<and>
   read_link (sample_target 100 200 999 14) 100 ''p_older'' = Inr 999 \<and>
   (999 :: int) \<noteq> 300 \<and>
   invoke (sample_target 100 200 999 14) =
     Some ([Text ''No p_time in Thread struct; enable CH_DBG_THREADS_PROFILING'',
            Header THREAD_INFO_HEADER_DATA,
            Row 200 512 520 7 8 ''main'' ''CURRENT'',
            Row 300 1024 1040 0 16 ''<no name>'' ''FINAL''],
           Some (GdbError ''Rlist pointer invalid--corrupt list?''))"
proof -
  let ?tgt = "sample_target 100 200 999 14"
  have h1: "sanity_check ?tgt =
     ([Text ''No p_time in Thread struct; enable CH_DBG_THREADS_PROFILING''], None)"
    by (rule sample_sanity)
  have h2: "rlist ?tgt = Some 100"
    by (simp add: sample_target_def)
  have h3: "read_link ?tgt 100 ''p_newer'' = Inr (hd ([200] @ [300]))"
    by (simp add: sample_links)
  have h4: "read_link ?tgt 100 ''p_older'' = Inr 999"
    by (simp add: sample_links)
  have h5: "linked ?tgt ([200] @ [300])"
    by (simp add: sample_links)
  have h6: "100 \<notin> set ([200] @ [300 :: int])"
    by simp
  have h7: "map (row_of ?tgt) ([200] @ [300]) =
     map Inr [Row 200 512 520 7 8 ''main'' ''CURRENT'',
              Row 300 1024 1040 0 16 ''<no name>'' ''FINAL'']"
    by (simp add: sample_row_200 sample_row_300)
  have h8: "read_link ?tgt 300 ''p_newer'' = Inr 100"
    by (simp add: sample_links)
  have h10: "(999 :: int) \<noteq> 300"
    by simp
  from corruption_aborts_walk [OF h1 h2 h3 h4 h5 h6 h7 h8 h4 h10] h1 h2 h3 h4 h5 h7 h8
  show ?thesis
    by simp
qed

section \<open>The fill scan\<close>

text \<open>
  C3. When the stack limit is present and positive and the memory from the stack limit up
  to the saved stack pointer is readable, \<open>stack_unused\<close> is the index of the first byte
  that is not the fill byte \<open>'U'\<close> (0x55), and 0 when every byte is the fill byte. In
  particular it is 0 when byte 0 is not the fill byte, and 7 when the first seven bytes are
  fill bytes and byte 7 is not.
\<close>

theorem fill_scan_first_non_fill:
  assumes "mandatory_fields fs sp nm st fl pr rf"
    and "map_of fs ''p_stklimit'' = Some (VInt lim)" and "0 < lim"
    and "read_memory tgt lim (sp - lim) = Some stack"
  shows "\<exists>ch. ChibiosThread tgt (VStruct a fs) = ([(lim, sp - lim)], Inr ch) \<and>
           (\<forall>i<length stack. stack ! i \<noteq> CHR ''U'' \<and> (\<forall>j<i. stack ! j = CHR ''U'') \<longrightarrow>
              stack_unused ch = int i) \<and>
           ((\<forall>b\<in>set stack. b = CHR ''U'') \<longrightarrow> stack_unused ch = 0) \<and>
           (\<forall>b rest. stack = b # rest \<and> b \<noteq> CHR ''U'' \<longrightarrow> stack_unused ch = 0) \<and>
           (\<forall>b rest. stack = replicate 7 (CHR ''U'') @ b # rest \<and> b \<noteq> CHR ''U'' \<longrightarrow>
              stack_unused ch = 7) \<and>
           (of_char (CHR ''U'') :: nat) = 0x55"
proof -
  from assms(2) have lim: "stklimit_field fs lim"
    by (simp add: stklimit_field_def)
  let ?ch = "snd (ChibiosThread tgt (VStruct a fs))"
  from ChibiosThread_built [OF assms(1) lim, of tgt a] assms(3) assms(4)
  obtain ch where ch: "ChibiosThread tgt (VStruct a fs) = ([(lim, sp - lim)], Inr ch)"
    and un: "stack_unused ch = first_non_fill 0 stack"
    by (simp add: stack_unused_def)
  have idx: "\<forall>i<length stack. stack ! i \<noteq> CHR ''U'' \<and> (\<forall>j<i. stack ! j = CHR ''U'') \<longrightarrow>
      stack_unused ch = int i"
    using first_non_fill_index [of _ stack 0] un by simp
  have allf: "(\<forall>b\<in>set stack. b = CHR ''U'') \<longrightarrow> stack_unused ch = 0"
    using first_non_fill_all [of stack 0] un by simp
  have b0: "\<forall>b rest. stack = b # rest \<and> b \<noteq> CHR ''U'' \<longrightarrow> stack_unused ch = 0"
    using un by auto
  have b7: "\<forall>b rest. stack = replicate 7 (CHR ''U'') @ b # rest \<and> b \<noteq> CHR ''U'' \<longrightarrow>
      stack_unused ch = 7"
  proof (intro allI impI)
    fix b rest
    assume s: "stack = replicate 7 (CHR ''U'') @ b # rest \<and> b \<noteq> CHR ''U''"
    then have "7 < length stack" "stack ! 7 \<noteq> CHR ''U''" "\<forall>j<7. stack ! j = CHR ''U''"
      by (simp_all add: nth_append)
    from first_non_fill_index [OF this, of 0] un show "stack_unused ch = 7" by simp
  qed
  from ch idx allf b0 b7 show ?thesis by simp
qed

text \<open>
  A stack of eight bytes, the last of which has been written.
\<close>

theorem fill_scan_first_non_fill_witness:
  "mandatory_fields ((''p_stklimit'', VInt 512) # thread_struct 300 100 520 ''main'' 1)
     520 ''main'' 1 (VInt 0) (VInt 64) (VInt 1) \<and>
   map_of ((''p_stklimit'', VInt 512) # thread_struct 300 100 520 ''main'' 1) ''p_stklimit''
     = Some (VInt 512) \<and>
   (0::int) < 512 \<and>
   read_memory (scan_target (Some ''UUUUUUUx'')) 512 (520 - 512) = Some ''UUUUUUUx'' \<and>
   (\<exists>ch. ChibiosThread (scan_target (Some ''UUUUUUUx''))
          (VStruct 200 ((''p_stklimit'', VInt 512) # thread_struct 300 100 520 ''main'' 1))
          = ([(512, 8)], Inr ch) \<and> stack_unused ch = 7)"
proof -
  let ?fs = "(''p_stklimit'', VInt 512) # thread_struct 300 100 520 ''main'' 1"
  let ?tgt = "scan_target (Some ''UUUUUUUx'')"
  have h1: "mandatory_fields ?fs 520 ''main'' 1 (VInt 0) (VInt 64) (VInt 1)"
    by (simp add: mandatory_fields_def thread_struct_def)
  have h2: "map_of ?fs ''p_stklimit'' = Some (VInt 512)"
    by simp
  have h3: "(0::int) < 512"
    by simp
  have h4: "read_memory ?tgt 512 (520 - 512) = Some ''UUUUUUUx''"
    by (simp add: scan_target_def)
  from fill_scan_first_non_fill [OF h1 h2 h3 h4, of 200]
  obtain ch where ch: "ChibiosThread ?tgt (VStruct 200 ?fs) = ([(512, 520 - 512)], Inr ch)"
    and b7: "\<forall>b rest. ''UUUUUUUx'' = replicate 7 (CHR ''U'') @ b # rest \<and> b \<noteq> CHR ''U'' \<longrightarrow>
               stack_unused ch = 7"
    by blast
  have "''UUUUUUUx'' = replicate 7 (CHR ''U'') @ CHR ''x'' # []"
    by (simp add: numeral_eq_Suc)
  with b7 have "stack_unused ch = 7"
    by blast
  with ch h1 h2 h4 show ?thesis
    by simp
qed

text \<open>
  C4. When the member \<open>p_stklimit\<close> is absent, or present with a value that is not
  positive, the constructor reads no memory and every object it builds has
  \<open>stack_size = 0\<close> and \<open>stack_unused = 0\<close>; with the other members readable it
  builds the object, whatever the saved stack pointer is.
\<close>

theorem no_stklimit_no_scan:
  assumes "map_of fs ''p_stklimit'' = None \<or>
           (\<exists>lim. map_of fs ''p_stklimit'' = Some (VInt lim) \<and> lim \<le> 0)"
  shows "fst (ChibiosThread tgt (VStruct a fs)) = [] \<and>
         (\<forall>ch. snd (ChibiosThread tgt (VStruct a fs)) = Inr ch \<longrightarrow>
                stack_size ch = 0 \<and> stack_unused ch = 0) \<and>
         (\<forall>sp nm st fl pr rf. mandatory_fields fs sp nm st fl pr rf \<longrightarrow>
            (\<exists>ch. ChibiosThread tgt (VStruct a fs) = ([], Inr ch) \<and> stack_start ch = sp \<and>
                   stack_size ch = 0 \<and> stack_unused ch = 0))"
proof -
  from assms obtain lim where lim: "stklimit_field fs lim" and le: "lim \<le> 0"
    by (auto simp: stklimit_field_def)
  have rd: "fst (ChibiosThread tgt (VStruct a fs)) = []"
    unfolding ChibiosThread_def read_stklimit [OF lim] using le
    by (simp add: bind_exn_def split: sum.splits)
  have zero: "\<forall>ch. snd (ChibiosThread tgt (VStruct a fs)) = Inr ch \<longrightarrow>
                stack_size ch = 0 \<and> stack_unused ch = 0"
    unfolding ChibiosThread_def read_stklimit [OF lim] using le
    by (auto simp: bind_exn_def stack_size_def stack_unused_def Let_def split: sum.splits)
  have built: "\<forall>sp nm st fl pr rf. mandatory_fields fs sp nm st fl pr rf \<longrightarrow>
            (\<exists>ch. ChibiosThread tgt (VStruct a fs) = ([], Inr ch) \<and> stack_start ch = sp \<and>
                   stack_size ch = 0 \<and> stack_unused ch = 0)"
    using ChibiosThread_built [OF _ lim, of _ _ _ _ _ _ tgt a] le
    by (simp add: stack_start_def stack_size_def stack_unused_def)
  from rd zero built show ?thesis by blast
qed

text \<open>
  A thread structure of a kernel built without \<open>p_stklimit\<close>.
\<close>

theorem no_stklimit_no_scan_witness:
  "map_of (thread_struct 300 100 520 ''main'' 1) ''p_stklimit'' = None \<and>
   ChibiosThread (scan_target (Some ''xyz'')) (VStruct 200 (thread_struct 300 100 520 ''main'' 1)) =
     ([], Inr \<lparr>m_stklimit = 0, m_r13 = 520, m_address = 200, m_stack_size = 0,
               m_stack_unused = 0, m_name = ''main'', m_state = 1, m_flags = VInt 0,
               m_prio = VInt 64, m_refs = VInt 1, m_time = VInt 0\<rparr>) \<and>
   fst (ChibiosThread (scan_target (Some ''xyz'')) (VStruct 200 (thread_struct 300 100 520 ''main'' 1))) = [] \<and>
   stack_size \<lparr>m_stklimit = 0, m_r13 = 520, m_address = 200, m_stack_size = 0,
               m_stack_unused = 0, m_name = ''main'', m_state = 1, m_flags = VInt 0,
               m_prio = VInt 64, m_refs = VInt 1, m_time = VInt 0\<rparr> = 0"
proof -
  let ?fs = "thread_struct 300 100 520 ''main'' 1"
  let ?tgt = "scan_target (Some ''xyz'')"
  have h: "map_of ?fs ''p_stklimit'' = None"
    by (simp add: thread_struct_def)
  then have h': "map_of ?fs ''p_stklimit'' = None \<or>
           (\<exists>lim. map_of ?fs ''p_stklimit'' = Some (VInt lim) \<and> lim \<le> 0)"
    by simp
  have m: "mandatory_fields ?fs 520 ''main'' 1 (VInt 0) (VInt 64) (VInt 1)"
    by (simp add: mandatory_fields_def thread_struct_def)
  have t: "time_field ?fs = VInt 0"
    by (simp add: time_field_def thread_struct_def)
  have l: "stklimit_field ?fs 0"
    using h by (simp add: stklimit_field_def)
  have c: "ChibiosThread ?tgt (VStruct 200 ?fs) =
     ([], Inr \<lparr>m_stklimit = 0, m_r13 = 520, m_address = 200, m_stack_size = 0,
               m_stack_unused = 0, m_name = ''main'', m_state = 1, m_flags = VInt 0,
               m_prio = VInt 64, m_refs = VInt 1, m_time = VInt 0\<rparr>)"
    using ChibiosThread_built [OF m l, of ?tgt 200] t by simp
  from no_stklimit_no_scan [OF h', of ?tgt 200] c h show ?thesis
    by simp
qed

text \<open>
  C5. When the raw memory read of the stack raises \<open>gdb.MemoryError\<close>, the constructor
  keeps \<open>stack_unused = 0\<close>, reads the name, the state, the flags, the priority and the
  reference count, and builds the object; the loop prints its row and goes on to the next
  node when the links are consistent and the state ordinal indexes the state table.
\<close>

theorem scan_memory_error_absorbed:
  assumes "mandatory_fields fs sp nm st fl pr rf"
    and "map_of fs ''p_stklimit'' = Some (VInt lim)" and "0 < lim"
    and "read_memory tgt lim (sp - lim) = None"
  shows "ChibiosThread tgt (VStruct a fs) =
           ([(lim, sp - lim)],
            Inr \<lparr>m_stklimit = lim, m_r13 = sp, m_address = a, m_stack_size = sp - lim,
                 m_stack_unused = 0, m_name = (if nm = [] then ''<no name>'' else nm),
                 m_state = st, m_flags = fl, m_prio = pr, m_refs = rf,
                 m_time = time_field fs\<rparr>) \<and>
         (\<forall>rl m s out.
            memory tgt a = Some fs \<and> a \<noteq> rl \<and> list_getitem THREAD_STATE st = Inr s \<and>
            read_link tgt a ''p_newer'' = Inr m \<and> read_link tgt m ''p_older'' = Inr a \<longrightarrow>
            walk tgt rl a out =
              walk tgt rl m
                (out @ [Row a lim sp 0 (sp - lim) (if nm = [] then ''<no name>'' else nm) s]))"
proof -
  from assms(2) have lim: "stklimit_field fs lim"
    by (simp add: stklimit_field_def)
  let ?ch = "\<lparr>m_stklimit = lim, m_r13 = sp, m_address = a, m_stack_size = sp - lim,
                 m_stack_unused = 0, m_name = (if nm = [] then ''<no name>'' else nm),
                 m_state = st, m_flags = fl, m_prio = pr, m_refs = rf,
                 m_time = time_field fs\<rparr>"
  have built: "ChibiosThread tgt (VStruct a fs) = ([(lim, sp - lim)], Inr ?ch)"
    using ChibiosThread_built [OF assms(1) lim, of tgt a] assms(3) assms(4) by simp
  have "walk tgt rl a out =
          walk tgt rl m
            (out @ [Row a lim sp 0 (sp - lim) (if nm = [] then ''<no name>'' else nm) s])"
    if mem: "memory tgt a = Some fs" and ne: "a \<noteq> rl"
      and s: "list_getitem THREAD_STATE st = Inr s"
      and nw: "read_link tgt a ''p_newer'' = Inr m" and od: "read_link tgt m ''p_older'' = Inr a"
    for rl m s out
  proof -
    have "row_of tgt a =
        Inr (Row a lim sp 0 (sp - lim) (if nm = [] then ''<no name>'' else nm) s)"
      unfolding row_of_def dereference_def
      using mem s
      by (simp add: bind_exn_Inr built THREAD_INFO_FORMAT_def state_str_def state_def
            address_def stack_limit_def stack_start_def stack_unused_def stack_size_def
            name_def)
    from walk_step [OF ne loop_body_next [OF this nw od]] show ?thesis .
  qed
  with built show ?thesis by blast
qed

text \<open>
  The second thread of the sample registry, whose stack cannot be read.
\<close>

theorem scan_memory_error_absorbed_witness:
  "mandatory_fields ((''p_stklimit'', VInt 1024) # thread_struct 100 200 1040 [] 14)
     1040 [] 14 (VInt 0) (VInt 64) (VInt 1) \<and>
   map_of ((''p_stklimit'', VInt 1024) # thread_struct 100 200 1040 [] 14) ''p_stklimit''
     = Some (VInt 1024) \<and>
   (0::int) < 1024 \<and>
   read_memory (sample_target 100 200 300 14) 1024 (1040 - 1024) = None \<and>
   ChibiosThread (sample_target 100 200 300 14)
     (VStruct 300 ((''p_stklimit'', VInt 1024) # thread_struct 100 200 1040 [] 14)) =
     ([(1024, 16)],
      Inr \<lparr>m_stklimit = 1024, m_r13 = 1040, m_address = 300, m_stack_size = 16,
           m_stack_unused = 0, m_name = ''<no name>'', m_state = 14, m_flags = VInt 0,
           m_prio = VInt 64, m_refs = VInt 1, m_time = VInt 0\<rparr>) \<and>
   walk (sample_target 100 200 300 14) 100 300 [] =
     Some ([Row 300 1024 1040 0 16 ''<no name>'' ''FINAL''], None)"
proof -
  let ?fs = "(''p_stklimit'', VInt 1024) # thread_struct 100 200 1040 [] 14"
  let ?tgt = "sample_target 100 200 300 14"
  have h1: "mandatory_fields ?fs 1040 [] 14 (VInt 0) (VInt 64) (VInt 1)"
    by (simp add: mandatory_fields_def thread_struct_def)
  have h2: "map_of ?fs ''p_stklimit'' = Some (VInt 1024)"
    by simp
  have h3: "(0::int) < 1024"
    by simp
  have h4: "read_memory ?tgt 1024 (1040 - 1024) = None"
    by (simp add: sample_target_def)
  have t: "time_field ?fs = VInt 0"
    by (simp add: time_field_def thread_struct_def)
  have mem: "memory ?tgt 300 = Some ?fs"
    by (simp add: sample_target_def)
  have s: "list_getitem THREAD_STATE 14 = Inr ''FINAL''"
    by (simp add: list_getitem_def THREAD_STATE_def)
  have nw: "read_link ?tgt 300 ''p_newer'' = Inr 100"
    by (simp add: read_link_def dereference_def sample_target_def thread_struct_def
          bind_exn_def getitem_def to_int_def)
  have od: "read_link ?tgt 100 ''p_older'' = Inr 300"
    by (simp add: read_link_def dereference_def sample_target_def
          bind_exn_def getitem_def to_int_def)
  note inst = scan_memory_error_absorbed [OF h1 h2 h3 h4, of 300]
  from inst have c: "ChibiosThread ?tgt (VStruct 300 ?fs) =
     ([(1024, 16)],
      Inr \<lparr>m_stklimit = 1024, m_r13 = 1040, m_address = 300, m_stack_size = 16,
           m_stack_unused = 0, m_name = ''<no name>'', m_state = 14, m_flags = VInt 0,
           m_prio = VInt 64, m_refs = VInt 1, m_time = VInt 0\<rparr>)"
    by (simp add: t)
  from inst mem s nw od
  have "walk ?tgt 100 300 [] =
      walk ?tgt 100 100 ([] @ [Row 300 1024 1040 0 (1040 - 1024) ''<no name>'' ''FINAL''])"
    by simp
  then have w: "walk ?tgt 100 300 [] =
      Some ([Row 300 1024 1040 0 16 ''<no name>'' ''FINAL''], None)"
    by (simp add: walk_done)
  from h1 h2 h4 c w show ?thesis
    by simp
qed

section \<open>The schema check\<close>

text \<open>
  C6. For a target that has the type \<open>Thread\<close>, \<open>sanity_check\<close> raises if and only
  if \<open>p_newer\<close> or \<open>p_older\<close> is not a member, and then it raises
  \<open>gdb.GdbError\<close> with the message that the registry is not enabled. When it does not
  raise, it prints one warning for an absent \<open>p_stklimit\<close> and one for an absent
  \<open>p_time\<close>, and nothing else.
\<close>

theorem sanity_check_links:
  assumes "lookup_type_Thread tgt = Some ks"
  shows "((snd (sanity_check tgt) \<noteq> None) = (''p_newer'' \<notin> set ks \<or> ''p_older'' \<notin> set ks)) \<and>
         (snd (sanity_check tgt) \<noteq> None \<longrightarrow>
            sanity_check tgt =
              ([], Some (GdbError ''ChibiOS/RT thread registry not enabled, cannot access thread information!''))) \<and>
         (snd (sanity_check tgt) = None \<longrightarrow>
            fst (sanity_check tgt) =
              (if ''p_stklimit'' \<notin> set ks
               then [Text ''No p_stklimit in Thread struct; enable CH_DBG_ENABLE_STACK_CHECK'']
               else []) @
              (if ''p_time'' \<notin> set ks
               then [Text ''No p_time in Thread struct; enable CH_DBG_THREADS_PROFILING'']
               else []))"
  using assms by (simp add: sanity_check_def)

text \<open>
  A \<open>Thread\<close> type with the two links and neither of the optional members.
\<close>

theorem sanity_check_links_witness:
  "lookup_type_Thread (no_memory\<lparr>lookup_type_Thread := Some [''p_newer'', ''p_older'', ''p_ctx'']\<rparr>)
     = Some [''p_newer'', ''p_older'', ''p_ctx''] \<and>
   sanity_check (no_memory\<lparr>lookup_type_Thread := Some [''p_newer'', ''p_older'', ''p_ctx'']\<rparr>) =
     ([Text ''No p_stklimit in Thread struct; enable CH_DBG_ENABLE_STACK_CHECK'',
       Text ''No p_time in Thread struct; enable CH_DBG_THREADS_PROFILING''], None)"
proof -
  let ?tgt = "no_memory\<lparr>lookup_type_Thread := Some [''p_newer'', ''p_older'', ''p_ctx'']\<rparr>"
  have h: "lookup_type_Thread ?tgt = Some [''p_newer'', ''p_older'', ''p_ctx'']"
    by simp
  from sanity_check_links [OF h] have "snd (sanity_check ?tgt) = None"
    and "snd (sanity_check ?tgt) = None \<longrightarrow> fst (sanity_check ?tgt) =
       [Text ''No p_stklimit in Thread struct; enable CH_DBG_ENABLE_STACK_CHECK'',
        Text ''No p_time in Thread struct; enable CH_DBG_THREADS_PROFILING'']"
    by simp_all
  then have "sanity_check ?tgt =
     ([Text ''No p_stklimit in Thread struct; enable CH_DBG_ENABLE_STACK_CHECK'',
       Text ''No p_time in Thread struct; enable CH_DBG_THREADS_PROFILING''], None)"
    by (simp add: prod_eq_iff)
  with h show ?thesis
    by simp
qed

section \<open>The state ordinal\<close>

text \<open>
  The constructor accepts the state ordinal 15, the length of the state table.
\<close>

theorem state_ordinal_unchecked_counterexample:
  "snd (ChibiosThread no_memory (VStruct 200 (thread_struct 300 100 520 ''main'' 15))) =
     Inr \<lparr>m_stklimit = 0, m_r13 = 520, m_address = 200, m_stack_size = 0,
          m_stack_unused = 0, m_name = ''main'', m_state = 15, m_flags = VInt 0,
          m_prio = VInt 64, m_refs = VInt 1, m_time = VInt 0\<rparr>"
  by (simp add: ChibiosThread_def thread_struct_def getitem_def keys_def bind_exn_def
        cast_void_p_def to_int_def string_of_def gdb_address_def)

text \<open>
  C7, amended. The constructor does not validate the state ordinal: it keeps any ordinal
  and builds the object. The ordinal meets the table of 15 states only in \<open>state_str\<close>,
  when the row is formatted: the ordinal 14 gives \<open>FINAL\<close>, an ordinal of 15 or more
  raises IndexError there, and whatever \<open>state_str\<close> returns is an entry of the table.
\<close>

theorem state_ordinal_checked_by_state_str:
  assumes "mandatory_fields fs sp nm st fl pr rf" and "stklimit_field fs lim"
  shows "\<exists>ch. snd (ChibiosThread tgt (VStruct a fs)) = Inr ch \<and> state ch = st \<and>
           (st = 14 \<longrightarrow> state_str ch = Inr ''FINAL'') \<and>
           (15 \<le> st \<longrightarrow> state_str ch = Inl IndexError \<and> THREAD_INFO_FORMAT ch = Inl IndexError) \<and>
           (\<forall>s. state_str ch = Inr s \<longrightarrow> s \<in> set THREAD_STATE)"
proof -
  from ChibiosThread_built [OF assms, of tgt a]
  obtain ch where ch: "snd (ChibiosThread tgt (VStruct a fs)) = Inr ch" and st: "m_state ch = st"
    by simp
  have final: "st = 14 \<longrightarrow> state_str ch = Inr ''FINAL''"
    using state_str_range [of ch] st by (simp add: THREAD_STATE_def)
  have over: "15 \<le> st \<longrightarrow> state_str ch = Inl IndexError \<and> THREAD_INFO_FORMAT ch = Inl IndexError"
    using state_str_IndexError [of ch] st by (auto simp: THREAD_INFO_FORMAT_def bind_exn_Inl)
  have table: "\<forall>s. state_str ch = Inr s \<longrightarrow> s \<in> set THREAD_STATE"
    using state_str_in_table [of ch] by blast
  from ch st final over table show ?thesis
    by (auto simp: state_def)
qed

text \<open>
  A thread whose state ordinal is 15.
\<close>

theorem state_ordinal_checked_by_state_str_witness:
  "mandatory_fields (thread_struct 300 100 520 ''main'' 15) 520 ''main'' 15 (VInt 0) (VInt 64) (VInt 1) \<and>
   stklimit_field (thread_struct 300 100 520 ''main'' 15) 0 \<and>
   (\<exists>ch. snd (ChibiosThread no_memory (VStruct 200 (thread_struct 300 100 520 ''main'' 15))) = Inr ch \<and>
         state ch = 15 \<and> state_str ch = Inl IndexError \<and> THREAD_INFO_FORMAT ch = Inl IndexError)"
proof -
  let ?fs = "thread_struct 300 100 520 ''main'' 15"
  have h1: "mandatory_fields ?fs 520 ''main'' 15 (VInt 0) (VInt 64) (VInt 1)"
    by (simp add: mandatory_fields_def thread_struct_def)
  have h2: "stklimit_field ?fs 0"
    by (simp add: stklimit_field_def thread_struct_def)
  from state_ordinal_checked_by_state_str [OF h1 h2, of no_memory 200] h1 h2
  show ?thesis
    by auto
qed

section \<open>The report\<close>




section \<open>Negative state ordinals and negative stack sizes\<close>

text \<open>
  C9. The constructor keeps the state ordinal unchanged, whatever it is, and raises no
  exception on its account. For an ordinal \<open>n\<close> from -15 to -1, \<open>state_str\<close>
  returns the entry \<open>15 + n\<close> of the table, the name of the state \<open>15 + n\<close>;
  it raises IndexError exactly for the ordinals from 15 on and below -15.
\<close>

theorem negative_state_ordinal_wraps:
  assumes "mandatory_fields fs sp nm st fl pr rf" and "stklimit_field fs lim"
  shows "\<exists>ch. snd (ChibiosThread tgt (VStruct a fs)) = Inr ch \<and> state ch = st \<and>
           (- 15 \<le> st \<and> st \<le> - 1 \<longrightarrow>
              state_str ch = Inr (THREAD_STATE ! nat (15 + st)) \<and>
              state_str ch = state_str (ch\<lparr>m_state := 15 + st\<rparr>)) \<and>
           ((15 \<le> st \<or> st < - 15) = (state_str ch = Inl IndexError))"
proof -
  from ChibiosThread_built [OF assms, of tgt a]
  obtain ch where ch: "snd (ChibiosThread tgt (VStruct a fs)) = Inr ch" and st: "m_state ch = st"
    by simp
  have neg: "- 15 \<le> st \<and> st \<le> - 1 \<longrightarrow>
              state_str ch = Inr (THREAD_STATE ! nat (15 + st)) \<and>
              state_str ch = state_str (ch\<lparr>m_state := 15 + st\<rparr>)"
    using state_str_negative [of ch] state_str_range [of "ch\<lparr>m_state := 15 + st\<rparr>"] st
    by simp
  have out: "(15 \<le> st \<or> st < - 15) = (state_str ch = Inl IndexError)"
    using state_str_IndexError [of ch] st by simp
  from ch st neg out show ?thesis
    by (auto simp: state_def)
qed

text \<open>
  A thread whose state ordinal is -1.
\<close>

theorem negative_state_ordinal_wraps_witness:
  "mandatory_fields (thread_struct 300 100 520 ''main'' (- 1)) 520 ''main'' (- 1) (VInt 0) (VInt 64) (VInt 1) \<and>
   stklimit_field (thread_struct 300 100 520 ''main'' (- 1)) 0 \<and>
   (\<exists>ch. snd (ChibiosThread no_memory (VStruct 200 (thread_struct 300 100 520 ''main'' (- 1)))) = Inr ch \<and>
         state ch = - 1 \<and> state_str ch = Inr ''FINAL'')"
proof -
  let ?fs = "thread_struct 300 100 520 ''main'' (- 1)"
  have h1: "mandatory_fields ?fs 520 ''main'' (- 1) (VInt 0) (VInt 64) (VInt 1)"
    by (simp add: mandatory_fields_def thread_struct_def)
  have h2: "stklimit_field ?fs 0"
    by (simp add: stklimit_field_def thread_struct_def)
  have e: "THREAD_STATE ! nat (15 + - 1) = ''FINAL''"
    by (simp add: THREAD_STATE_def)
  from negative_state_ordinal_wraps [OF h1 h2, of no_memory 200] h1 h2 e
  show ?thesis
    by auto
qed

text \<open>
  C10. When \<open>p_stklimit\<close> is present and positive and the saved stack pointer is
  below it, the constructor builds the object: \<open>stack_size\<close> is the negative difference,
  and the raw memory read is called with that negative length and decides
  \<open>stack_unused\<close>.
\<close>

theorem negative_stack_size_scanned:
  assumes "mandatory_fields fs sp nm st fl pr rf"
    and "map_of fs ''p_stklimit'' = Some (VInt lim)" and "0 < lim" and "sp < lim"
  shows "\<exists>ch. ChibiosThread tgt (VStruct a fs) = ([(lim, sp - lim)], Inr ch) \<and>
           stack_size ch = sp - lim \<and> stack_size ch < 0 \<and>
           stack_unused ch =
             (case read_memory tgt lim (sp - lim) of
                Some stack \<Rightarrow> first_non_fill 0 stack | None \<Rightarrow> 0)"
proof -
  from assms(2) have lim: "stklimit_field fs lim"
    by (simp add: stklimit_field_def)
  from ChibiosThread_built [OF assms(1) lim, of tgt a] assms(3) assms(4)
  show ?thesis
    by (simp add: stack_size_def stack_unused_def)
qed

text \<open>
  A saved stack pointer 12 bytes below the stack limit.
\<close>

theorem negative_stack_size_scanned_witness:
  "mandatory_fields ((''p_stklimit'', VInt 512) # thread_struct 300 100 500 ''main'' 1)
     500 ''main'' 1 (VInt 0) (VInt 64) (VInt 1) \<and>
   map_of ((''p_stklimit'', VInt 512) # thread_struct 300 100 500 ''main'' 1) ''p_stklimit''
     = Some (VInt 512) \<and>
   (0::int) < 512 \<and> (500::int) < 512 \<and>
   (\<exists>ch. ChibiosThread (scan_target (Some ''UUx''))
           (VStruct 200 ((''p_stklimit'', VInt 512) # thread_struct 300 100 500 ''main'' 1)) =
           ([(512, - 12)], Inr ch) \<and>
         stack_size ch = - 12 \<and> stack_unused ch = 2)"
proof -
  let ?fs = "(''p_stklimit'', VInt 512) # thread_struct 300 100 500 ''main'' 1"
  have h1: "mandatory_fields ?fs 500 ''main'' 1 (VInt 0) (VInt 64) (VInt 1)"
    by (simp add: mandatory_fields_def thread_struct_def)
  have h2: "map_of ?fs ''p_stklimit'' = Some (VInt 512)"
    by simp
  have h3: "(0::int) < 512" and h4: "(500::int) < 512"
    by simp_all
  from negative_stack_size_scanned [OF h1 h2 h3 h4, of "scan_target (Some ''UUx'')" 200] h1 h2
  show ?thesis
    by (auto simp: scan_target_def)
qed

end
